theory Spec2Isabelle
  imports Main "HOL-Library.Sublist"
begin

section \<open>The page environment of \<open>lmsapp/static/js/script.js\<close>\<close>

text \<open>
  The script talks to three host facilities: the document (element lookup by identifier,
  event subscription), the \<open>value\<close> property of an element, and the blocking
  \<open>alert\<close> primitive. The environment record below is the part of the page that the
  script can read or change.

  An element reference is the position of the element in document order. The
  \<open>value\<close> property of an element is a JavaScript value: a string for text inputs,
  a number for list items, \<open>undefined\<close> for elements that have no such property.
\<close>

datatype js_value = JUndefined | JNumber int | JString string

text \<open>
  The two function expressions of the script: the listener registered on the document
  (lines 7 to 14) and the listener registered on the button (lines 10 to 12).
\<close>

datatype closure = ReadyHandler | ClickHandler

datatype error = TypeError

record element =
  el_id :: string
  el_value :: js_value
  el_listeners :: "(string \<times> closure) list"

record env =
  nodes :: "element list"
  doc_listeners :: "(string \<times> closure) list"
  alerts :: "string list"

subsection \<open>Host primitives\<close>

text \<open>
  Lookup by identifier returns the first element in document order that carries the
  identifier, or null (\<open>None\<close>).
\<close>

fun find_id :: "string \<Rightarrow> element list \<Rightarrow> nat option" where
  "find_id ident [] = None"
| "find_id ident (e # es) =
     (if el_id e = ident then Some 0 else map_option Suc (find_id ident es))"

definition getElementById :: "env \<Rightarrow> string \<Rightarrow> nat option" where
  "getElementById env ident = find_id ident (nodes env)"

text \<open>
  The script only ever passes the identifier selector \<open>#myButton\<close>; selectors of any
  other shape are outside the model and match nothing.
\<close>

fun querySelector :: "env \<Rightarrow> string \<Rightarrow> nat option" where
  "querySelector env [] = None"
| "querySelector env (c # ident) =
     (if c = CHR ''#'' then getElementById env ident else None)"

text \<open>
  \<open>alert\<close> presents its message and blocks until the user dismisses it; the messages
  presented so far are recorded in order.
\<close>

definition alert :: "string \<Rightarrow> env \<Rightarrow> env" where
  "alert message env = env\<lparr>alerts := alerts env @ [message]\<rparr>"

text \<open>
  Every evaluation of a function expression yields a new function object, so a
  subscription made by the script is never a duplicate of an earlier one and is
  appended to the listener list of its target.
\<close>

definition addEventListener :: "nat \<Rightarrow> string \<Rightarrow> closure \<Rightarrow> env \<Rightarrow> env" where
  "addEventListener i ty f env =
     env\<lparr>nodes := (nodes env)
       [i := (nodes env ! i)\<lparr>el_listeners := el_listeners (nodes env ! i) @ [(ty, f)]\<rparr>]\<rparr>"

definition document_addEventListener :: "string \<Rightarrow> closure \<Rightarrow> env \<Rightarrow> env" where
  "document_addEventListener ty f env = env\<lparr>doc_listeners := doc_listeners env @ [(ty, f)]\<rparr>"

section \<open>The script\<close>

text \<open>
  \<^verbatim>\<open>function showAlert(message) { alert(message); }\<close>
\<close>

definition showAlert :: "string \<Rightarrow> env \<Rightarrow> unit \<times> env" where
  "showAlert message env = ((), alert message env)"

text \<open>
  \<^verbatim>\<open>
  function validateForm() {
      var username = document.getElementById('username').value;
      if (username === '') { alert('Username is required!'); return false; }
      return true;
  }
  \<close>
  Reading \<open>.value\<close> from null throws a TypeError. Strict equality with the empty
  string holds for the empty string only.
\<close>

definition validateForm :: "env \<Rightarrow> (error + bool) \<times> env" where
  "validateForm env =
     (case getElementById env ''username'' of
        None \<Rightarrow> (Inl TypeError, env)
      | Some i \<Rightarrow>
          (let username = el_value (nodes env ! i) in
           if username = JString '''' then (Inr False, alert ''Username is required!'' env)
           else (Inr True, env)))"

text \<open>
  The bodies of the two function expressions.
  \<^verbatim>\<open>
  function() {
      var myButton = document.querySelector('#myButton');
      if (myButton) {
          myButton.addEventListener('click', function() { showAlert('Button clicked!'); });
      }
  }
  \<close>
  An element is truthy and null is falsy.
\<close>

fun call :: "closure \<Rightarrow> env \<Rightarrow> (error + unit) \<times> env" where
  "call ClickHandler env = (Inr (), snd (showAlert ''Button clicked!'' env))"
| "call ReadyHandler env =
     (case querySelector env ''#myButton'' of
        None \<Rightarrow> (Inr (), env)
      | Some myButton \<Rightarrow> (Inr (), addEventListener myButton ''click'' ClickHandler env))"

text \<open>
  The top level of the script: \<^verbatim>\<open>document.addEventListener('DOMContentLoaded', ...)\<close>.
\<close>

definition script :: "env \<Rightarrow> env" where
  "script env = document_addEventListener ''DOMContentLoaded'' ReadyHandler env"

section \<open>Event dispatch and page life\<close>

text \<open>
  Dispatching an event runs, in subscription order, the listeners that were subscribed
  for its type when the dispatch began. An exception thrown by a listener is reported by
  the host and does not stop the remaining listeners.
\<close>

fun run_listeners :: "(string \<times> closure) list \<Rightarrow> string \<Rightarrow> env \<Rightarrow> env" where
  "run_listeners [] ty env = env"
| "run_listeners ((t, f) # ls) ty env =
     run_listeners ls ty (if t = ty then snd (call f env) else env)"

definition dispatch :: "nat \<Rightarrow> string \<Rightarrow> env \<Rightarrow> env" where
  "dispatch i ty env =
     (if i < length (nodes env) then run_listeners (el_listeners (nodes env ! i)) ty env
      else env)"

definition document_dispatch :: "string \<Rightarrow> env \<Rightarrow> env" where
  "document_dispatch ty env = run_listeners (doc_listeners env) ty env"

text \<open>
  What can happen on the page: the parser appends an element (without listeners), the
  user edits a text field, the user activates an element, the form's submission calls
  \<open>validateForm\<close> (the caller is outside the script; its result is not kept here),
  and the document signals that it is ready.
\<close>

datatype event =
    Parse string js_value
  | Input nat string
  | Click nat
  | Submit
  | Ready

fun step :: "event \<Rightarrow> env \<Rightarrow> env" where
  "step (Parse ident v) env =
     env\<lparr>nodes := nodes env @ [\<lparr>el_id = ident, el_value = v, el_listeners = []\<rparr>]\<rparr>"
| "step (Input i s) env =
     (if i < length (nodes env) then
        (case el_value (nodes env ! i) of
           JString old \<Rightarrow> env\<lparr>nodes := (nodes env)[i := (nodes env ! i)\<lparr>el_value := JString s\<rparr>]\<rparr>
         | _ \<Rightarrow> env)
      else env)"
| "step (Click i) env = dispatch i ''click'' env"
| "step Submit env = snd (validateForm env)"
| "step Ready env = document_dispatch ''DOMContentLoaded'' env"

fun run :: "event list \<Rightarrow> env \<Rightarrow> env" where
  "run [] env = env"
| "run (ev # evs) env = run evs (step ev env)"

text \<open>
  The page when the script has just been executed: the elements parsed so far carry no
  listeners, nothing has been presented, and the script's top level has run.
\<close>

definition parsed :: "(string \<times> js_value) list \<Rightarrow> element list" where
  "parsed els = map (\<lambda>(ident, v). \<lparr>el_id = ident, el_value = v, el_listeners = []\<rparr>) els"

definition page_load :: "(string \<times> js_value) list \<Rightarrow> env" where
  "page_load els = script \<lparr>nodes = parsed els, doc_listeners = [], alerts = []\<rparr>"

text \<open>The value currently held by the username field, if the field exists.\<close>

definition field_value :: "env \<Rightarrow> js_value option" where
  "field_value env =
     map_option (\<lambda>i. el_value (nodes env ! i)) (getElementById env ''username'')"

text \<open>
  Before the ready signal the page is in this condition: the document carries the
  script's one subscription, no element carries a listener, and the only message ever
  presented is the one of \<open>validateForm\<close>.
\<close>

definition pre_ready :: "env \<Rightarrow> bool" where
  "pre_ready env \<longleftrightarrow>
     doc_listeners env = [(''DOMContentLoaded'', ReadyHandler)]
     \<and> list_all (\<lambda>e. el_listeners e = []) (nodes env)
     \<and> list_all (\<lambda>m. m = ''Username is required!'') (alerts env)"

text \<open>Two small pages used to run the script on concrete input.\<close>

definition login_page :: "(string \<times> js_value) list" where
  "login_page = [(''myButton'', JUndefined), (''username'', JString '''')]"

definition bare_page :: "(string \<times> js_value) list" where
  "bare_page = [(''title'', JUndefined)]"

lemmas page_defs =
  login_page_def bare_page_def page_load_def parsed_def script_def
  document_addEventListener_def addEventListener_def getElementById_def field_value_def
  validateForm_def showAlert_def alert_def dispatch_def document_dispatch_def

section \<open>Lookup and traces\<close>

lemma find_id_bound:
  "find_id ident es = Some i \<Longrightarrow> i < length es \<and> el_id (es ! i) = ident"
  by (induction es arbitrary: i) (auto split: if_splits)

lemma find_id_None: "find_id ident es = None \<longleftrightarrow> ident \<notin> el_id ` set es"
  by (induction es) auto

lemma validateForm_alerts:
  "snd (validateForm env) = env
   \<or> snd (validateForm env) = alert ''Username is required!'' env"
  by (simp add: validateForm_def Let_def split: option.split)

lemma pre_ready_page_load: "pre_ready (page_load els)"
  by (simp add: pre_ready_def page_load_def script_def document_addEventListener_def
      parsed_def list_all_iff split_beta)

lemma pre_ready_click: "pre_ready env \<Longrightarrow> step (Click i) env = env"
  by (simp add: pre_ready_def dispatch_def list_all_length)

lemma pre_ready_step:
  assumes "pre_ready env" and "ev \<noteq> Ready"
  shows "pre_ready (step ev env)"
proof (cases ev)
  case (Parse ident v)
  with assms show ?thesis by (simp add: pre_ready_def)
next
  case (Input i s)
  with assms show ?thesis
    by (auto simp: pre_ready_def list_all_length nth_list_update split: js_value.split)
next
  case (Click i)
  with assms show ?thesis by (simp only: pre_ready_click)
next
  case Submit
  with assms validateForm_alerts [of env] show ?thesis
    by (auto simp: pre_ready_def alert_def)
next
  case Ready
  with assms show ?thesis by simp
qed

lemma pre_ready_run:
  "pre_ready env \<Longrightarrow> Ready \<notin> set evs \<Longrightarrow> pre_ready (run evs env)"
proof (induction evs arbitrary: env)
  case Nil
  then show ?case by simp
next
  case (Cons ev evs)
  from Cons.prems have "ev \<noteq> Ready" and "Ready \<notin> set evs" by auto
  with Cons.prems(1) show ?case
    by (simp add: Cons.IH pre_ready_step del: step.simps)
qed

lemma clicks_after_binding:
  assumes "b < length (nodes env)"
    and "el_listeners (nodes env ! b) = [(''click'', ClickHandler)]"
  shows "run (replicate N (Click b)) env
           = env\<lparr>alerts := alerts env @ replicate N ''Button clicked!''\<rparr>"
  using assms
proof (induction N arbitrary: env)
  case 0
  then show ?case by simp
next
  case (Suc N)
  let ?env' = "env\<lparr>alerts := alerts env @ [''Button clicked!'']\<rparr>"
  from Suc.prems have s: "step (Click b) env = ?env'"
    by (simp add: dispatch_def showAlert_def alert_def)
  from Suc.prems have "run (replicate N (Click b)) ?env'
      = ?env'\<lparr>alerts := alerts ?env' @ replicate N ''Button clicked!''\<rparr>"
    by (intro Suc.IH) simp_all
  with s show ?case by (simp add: replicate_append_same)
qed

section \<open>The form check\<close>

text \<open>
  C1. Whenever the username field currently holds the empty string, \<open>validateForm\<close>
  returns \<open>false\<close> and presents exactly one message, \<open>Username is required!\<close>;
  nothing else on the page changes.
\<close>

theorem validateForm_empty:
  assumes "field_value env = Some (JString '''')"
  shows "validateForm env
           = (Inr False, env\<lparr>alerts := alerts env @ [''Username is required!'']\<rparr>)"
  using assms by (auto simp: field_value_def validateForm_def alert_def)

theorem validateForm_empty_witness:
  "field_value (page_load login_page) = Some (JString '''')
   \<and> fst (validateForm (page_load login_page)) = Inr False
   \<and> alerts (snd (validateForm (page_load login_page))) = [''Username is required!'']"
proof -
  have h: "field_value (page_load login_page) = Some (JString '''')"
    by (simp add: page_defs)
  from validateForm_empty [OF h] h show ?thesis
    by (simp add: login_page_def page_load_def script_def document_addEventListener_def)
qed

text \<open>
  C2. Whenever the username field currently holds a non-empty string (a string of
  blanks included: the value is compared as it is), \<open>validateForm\<close> returns
  \<open>true\<close> and presents nothing.
\<close>

theorem validateForm_nonempty:
  assumes "field_value env = Some (JString s)" and "s \<noteq> ''''"
  shows "validateForm env = (Inr True, env)"
  using assms by (auto simp: field_value_def validateForm_def)

theorem validateForm_nonempty_witness:
  "field_value (step (Input 1 '' '') (page_load login_page)) = Some (JString '' '')
   \<and> '' '' \<noteq> ''''
   \<and> validateForm (step (Input 1 '' '') (page_load login_page))
       = (Inr True, step (Input 1 '' '') (page_load login_page))"
proof -
  have h: "field_value (step (Input 1 '' '') (page_load login_page)) = Some (JString '' '')"
    by (simp add: page_defs)
  have n: "'' '' \<noteq> ''''" by simp
  from validateForm_nonempty [OF h n] h show ?thesis by simp
qed

text \<open>
  C3. When no element carries the identifier \<open>username\<close>, \<open>validateForm\<close> presents
  nothing and returns neither \<open>true\<close> nor \<open>false\<close>: the TypeError of the host leaves
  the call.
\<close>

theorem validateForm_missing_field:
  assumes "''username'' \<notin> el_id ` set (nodes env)"
  shows "validateForm env = (Inl TypeError, env)"
  using assms by (simp add: validateForm_def getElementById_def find_id_None [symmetric])

theorem validateForm_missing_field_witness:
  "''username'' \<notin> el_id ` set (nodes (page_load bare_page))
   \<and> fst (validateForm (page_load bare_page)) = Inl TypeError
   \<and> alerts (snd (validateForm (page_load bare_page))) = []"
proof -
  have h: "''username'' \<notin> el_id ` set (nodes (page_load bare_page))"
    by (simp add: page_defs)
  from validateForm_missing_field [OF h] h show ?thesis
    by (simp add: bare_page_def page_load_def script_def document_addEventListener_def)
qed

text \<open>
  C7. \<open>validateForm\<close> is idempotent: a second call right after the first, the field
  untouched in between, has the same outcome as the first; the first call leaves the
  field's value as it was, and where the field exists the outcome is a boolean.
\<close>

theorem validateForm_idempotent:
  "fst (validateForm (snd (validateForm env))) = fst (validateForm env)
   \<and> field_value (snd (validateForm env)) = field_value env
   \<and> (field_value env \<noteq> None \<longrightarrow>
        (\<exists>b. fst (validateForm env) = Inr b
           \<and> fst (validateForm (snd (validateForm env))) = Inr b))"
  by (auto simp: validateForm_def field_value_def alert_def Let_def getElementById_def
      split: option.split)

theorem validateForm_idempotent_witness:
  "field_value (page_load login_page) \<noteq> None
   \<and> fst (validateForm (page_load login_page)) = Inr False
   \<and> fst (validateForm (snd (validateForm (page_load login_page)))) = Inr False"
proof -
  have h: "field_value (page_load login_page) \<noteq> None"
    by (simp add: page_defs)
  have r: "fst (validateForm (page_load login_page)) = Inr False"
    by (simp add: page_defs)
  from validateForm_idempotent [of "page_load login_page"] h r show ?thesis by simp
qed

text \<open>
  C8. \<open>validateForm\<close> and \<open>showAlert\<close> keep no state: on every path a call changes
  nothing of the page but the presented messages, which only grow; the field's value in
  particular is as before.
\<close>

theorem calls_change_alerts_only:
  "(snd (validateForm env))\<lparr>alerts := alerts env\<rparr> = env
   \<and> (snd (showAlert m env))\<lparr>alerts := alerts env\<rparr> = env
   \<and> field_value (snd (validateForm env)) = field_value env
   \<and> field_value (snd (showAlert m env)) = field_value env
   \<and> prefix (alerts env) (alerts (snd (validateForm env)))
   \<and> prefix (alerts env) (alerts (snd (showAlert m env)))"
  by (simp add: validateForm_def showAlert_def field_value_def alert_def Let_def
      getElementById_def split: option.split)

text \<open>
  C9. \<open>validateForm\<close> is determined by the field's value: on two pages whose username
  fields hold the same value, the two calls return the same boolean and present the same
  messages.
\<close>

theorem validateForm_deterministic:
  assumes "field_value e1 = Some v" and "field_value e2 = Some v"
  shows "\<exists>b ns. validateForm e1 = (Inr b, e1\<lparr>alerts := alerts e1 @ ns\<rparr>)
               \<and> validateForm e2 = (Inr b, e2\<lparr>alerts := alerts e2 @ ns\<rparr>)"
proof (cases "v = JString ''''")
  case True
  with assms
  have "validateForm e1
          = (Inr False, e1\<lparr>alerts := alerts e1 @ [''Username is required!'']\<rparr>)"
    and "validateForm e2
          = (Inr False, e2\<lparr>alerts := alerts e2 @ [''Username is required!'']\<rparr>)"
    by (auto simp: field_value_def validateForm_def alert_def)
  then show ?thesis by blast
next
  case False
  with assms have "validateForm e1 = (Inr True, e1\<lparr>alerts := alerts e1 @ []\<rparr>)"
    and "validateForm e2 = (Inr True, e2\<lparr>alerts := alerts e2 @ []\<rparr>)"
    by (auto simp: field_value_def validateForm_def)
  then show ?thesis by blast
qed

theorem validateForm_deterministic_witness:
  "field_value (page_load login_page) = Some (JString '''')
   \<and> field_value (run [Submit, Parse ''footer'' JUndefined] (page_load (tl login_page)))
       = Some (JString '''')
   \<and> (\<exists>b ns.
        validateForm (page_load login_page)
          = (Inr b, (page_load login_page)
                      \<lparr>alerts := alerts (page_load login_page) @ ns\<rparr>)
        \<and> validateForm (run [Submit, Parse ''footer'' JUndefined] (page_load (tl login_page)))
          = (Inr b, (run [Submit, Parse ''footer'' JUndefined] (page_load (tl login_page)))
                      \<lparr>alerts := alerts (run [Submit, Parse ''footer'' JUndefined]
                                          (page_load (tl login_page))) @ ns\<rparr>))"
proof -
  have h1: "field_value (page_load login_page) = Some (JString '''')"
    by (simp add: page_defs)
  have h2: "field_value (run [Submit, Parse ''footer'' JUndefined] (page_load (tl login_page)))
              = Some (JString '''')"
    by (simp add: page_defs)
  from validateForm_deterministic [OF h1 h2] h1 h2 show ?thesis by blast
qed

section \<open>The notifier\<close>

text \<open>
  C6. For every string, the empty one included, \<open>showAlert\<close> presents exactly that
  string, returns no value, and does nothing else.
\<close>

theorem showAlert_passes_through:
  "showAlert m env = ((), env\<lparr>alerts := alerts env @ [m]\<rparr>)"
  by (simp add: showAlert_def alert_def)

section \<open>The click binding\<close>

text \<open>
  C4. When the button exists at the moment the ready signal fires, the ready handler
  subscribes exactly one click listener to it (the button had none before and has this
  one after, nothing else changes), and \<open>N\<close> activations of the button that follow
  present \<open>Button clicked!\<close> exactly \<open>N\<close> times.
\<close>

theorem ready_binds_click:
  assumes "Ready \<notin> set pre"
    and "querySelector (run pre (page_load els)) ''#myButton'' = Some b"
  shows "step Ready (run pre (page_load els))
           = addEventListener b ''click'' ClickHandler (run pre (page_load els))
       \<and> b < length (nodes (run pre (page_load els)))
       \<and> el_listeners (nodes (run pre (page_load els)) ! b) = []
       \<and> el_listeners (nodes (step Ready (run pre (page_load els))) ! b)
           = [(''click'', ClickHandler)]
       \<and> alerts (run (replicate N (Click b)) (step Ready (run pre (page_load els))))
           = alerts (step Ready (run pre (page_load els))) @ replicate N ''Button clicked!''"
proof -
  define e1 where "e1 = run pre (page_load els)"
  define e2 where "e2 = step Ready e1"
  have inv: "pre_ready e1"
    unfolding e1_def using assms(1) by (simp add: pre_ready_run pre_ready_page_load)
  from assms(2) have b: "b < length (nodes e1)"
    unfolding e1_def by (simp add: getElementById_def find_id_bound)
  from inv b have none: "el_listeners (nodes e1 ! b) = []"
    by (simp add: pre_ready_def list_all_length)
  from inv assms(2) have e2: "e2 = addEventListener b ''click'' ClickHandler e1"
    unfolding e1_def e2_def by (simp add: pre_ready_def document_dispatch_def)
  from b none have one: "el_listeners (nodes e2 ! b) = [(''click'', ClickHandler)]"
    by (simp add: e2 addEventListener_def)
  from b have b2: "b < length (nodes e2)"
    by (simp add: e2 addEventListener_def)
  from clicks_after_binding [OF b2 one, of N]
  have "alerts (run (replicate N (Click b)) e2) = alerts e2 @ replicate N ''Button clicked!''"
    by simp
  with e2 b none one show ?thesis
    unfolding e2_def e1_def by blast
qed

theorem ready_binds_click_witness:
  "Ready \<notin> set [Submit, Click 0]
   \<and> querySelector (run [Submit, Click 0] (page_load login_page)) ''#myButton'' = Some 0
   \<and> el_listeners (nodes (step Ready (run [Submit, Click 0] (page_load login_page))) ! 0)
       = [(''click'', ClickHandler)]
   \<and> alerts (run (replicate 3 (Click 0))
               (step Ready (run [Submit, Click 0] (page_load login_page))))
       = [''Username is required!'', ''Button clicked!'', ''Button clicked!'',
          ''Button clicked!'']"
proof -
  have h1: "Ready \<notin> set [Submit, Click 0]" by simp
  have h2: "querySelector (run [Submit, Click 0] (page_load login_page)) ''#myButton''
              = Some 0"
    by (simp add: page_defs)
  have a: "alerts (step Ready (run [Submit, Click 0] (page_load login_page)))
             = [''Username is required!'']"
    by (simp add: page_defs)
  have r: "replicate 3 ''Button clicked!''
             = [''Button clicked!'', ''Button clicked!'', ''Button clicked!'']"
    by (simp add: numeral_3_eq_3)
  note c = ready_binds_click [OF h1 h2, of 3]
  from c have l: "el_listeners
      (nodes (step Ready (run [Submit, Click 0] (page_load login_page))) ! 0)
        = [(''click'', ClickHandler)]"
    by (elim conjE)
  from c have "alerts (run (replicate 3 (Click 0))
                 (step Ready (run [Submit, Click 0] (page_load login_page))))
      = alerts (step Ready (run [Submit, Click 0] (page_load login_page)))
          @ replicate 3 ''Button clicked!''"
    by (elim conjE)
  then have s: "alerts (run (replicate 3 (Click 0))
                 (step Ready (run [Submit, Click 0] (page_load login_page))))
      = [''Username is required!'', ''Button clicked!'', ''Button clicked!'',
         ''Button clicked!'']"
    by (simp only: a r append.simps)
  from h1 h2 l s show ?thesis by (intro conjI)
qed

text \<open>
  C5. When no element carries the identifier \<open>myButton\<close> at the moment the ready
  signal fires, the ready handler subscribes nothing, throws nothing and returns
  normally: the page is as before.
\<close>

theorem ready_without_button:
  assumes "''myButton'' \<notin> el_id ` set (nodes env)"
  shows "call ReadyHandler env = (Inr (), env)"
  using assms by (simp add: getElementById_def find_id_None [symmetric])

theorem ready_without_button_witness:
  "''myButton'' \<notin> el_id ` set (nodes (page_load bare_page))
   \<and> call ReadyHandler (page_load bare_page) = (Inr (), page_load bare_page)
   \<and> step Ready (page_load bare_page) = page_load bare_page"
proof -
  have h: "''myButton'' \<notin> el_id ` set (nodes (page_load bare_page))"
    by (simp add: page_defs)
  from ready_without_button [OF h] h show ?thesis
    by (simp add: page_load_def script_def document_addEventListener_def
        document_dispatch_def)
qed

text \<open>
  C10. Before the ready signal no \<open>Button clicked!\<close> message is ever presented:
  in every state reached without the ready event, none has been presented so far and
  activating any element changes nothing, since the click listener is subscribed by the
  ready handler only.
\<close>

theorem no_click_alert_before_ready:
  assumes "Ready \<notin> set evs"
  shows "''Button clicked!'' \<notin> set (alerts (run evs (page_load els)))
       \<and> step (Click i) (run evs (page_load els)) = run evs (page_load els)"
proof -
  have inv: "pre_ready (run evs (page_load els))"
    using assms by (simp add: pre_ready_run pre_ready_page_load)
  then have "''Button clicked!'' \<notin> set (alerts (run evs (page_load els)))"
    by (auto simp: pre_ready_def list_all_iff)
  with inv show ?thesis by (simp add: pre_ready_click del: step.simps)
qed

theorem no_click_alert_before_ready_witness:
  "Ready \<notin> set [Click 0, Submit, Click 0]
   \<and> alerts (run [Click 0, Submit, Click 0] (page_load login_page))
       = [''Username is required!'']
   \<and> ''Button clicked!'' \<notin> set (alerts (run [Click 0, Submit, Click 0] (page_load login_page)))
   \<and> step (Click 0) (run [Click 0, Submit, Click 0] (page_load login_page))
       = run [Click 0, Submit, Click 0] (page_load login_page)"
proof -
  have h: "Ready \<notin> set [Click 0, Submit, Click 0]" by simp
  have a: "alerts (run [Click 0, Submit, Click 0] (page_load login_page))
             = [''Username is required!'']"
    by (simp add: page_defs)
  from no_click_alert_before_ready [OF h, of login_page 0] h a show ?thesis
    by (simp del: step.simps run.simps)
qed

end
